theory Spec2Isabelle
  imports Complex_Main
begin

chapter \<open>The generator script as functions\<close>

section \<open>Module constants and unit conversion\<close>

text \<open>
  The generator script keeps the dimensions of the brownstone in module-level constants
  (all in feet).  They are gathered in one record that every generator reads, so that the
  theorems hold for any choice of the constants; \<open>default_parameters\<close> holds the values
  written in the script.  Python floats are modelled by the reals: all arithmetic is exact.
\<close>

record parameters =
  BUILDING_WIDTH :: real
  BUILDING_DEPTH :: real
  BASEMENT_HEIGHT :: real
  FIRST_FLOOR_HEIGHT :: real
  SECOND_FLOOR_HEIGHT :: real
  THIRD_FLOOR_HEIGHT :: real
  FOURTH_FLOOR_HEIGHT :: real
  WALL_THICKNESS :: real
  FLOOR_THICKNESS :: real
  ROOF_THICKNESS :: real

definition default_parameters :: parameters where
  "default_parameters =
     \<lparr> BUILDING_WIDTH = 40, BUILDING_DEPTH = 80, BASEMENT_HEIGHT = 9,
       FIRST_FLOOR_HEIGHT = 10, SECOND_FLOOR_HEIGHT = 14, THIRD_FLOOR_HEIGHT = 12,
       FOURTH_FLOOR_HEIGHT = 12, WALL_THICKNESS = 1, FLOOR_THICKNESS = 1,
       ROOF_THICKNESS = 3 / 2 \<rparr>"


definition FOOT_TO_METER :: real where
  "FOOT_TO_METER = 3048 / 10000"

definition INCH_TO_METER :: real where
  "INCH_TO_METER = 254 / 10000"

definition convert_to_meter :: "real \<Rightarrow> real" where
  "convert_to_meter feet = feet * FOOT_TO_METER"

section \<open>Python helpers\<close>

datatype py_error = IndexError | KeyError | UnboundLocalError

text \<open>\<open>xs[i]\<close> for a non-negative index: out of range raises.\<close>

definition index :: "'a list \<Rightarrow> nat \<Rightarrow> py_error + 'a" where
  "index xs i = (if i < length xs then Inr (xs ! i) else Inl IndexError)"

text \<open>\<open>xs[-1]\<close>: raises on the empty list.\<close>

definition index_last :: "'a list \<Rightarrow> py_error + 'a" where
  "index_last xs = (if xs = [] then Inl IndexError else Inr (last xs))"


text \<open>\<open>str(n)\<close> for a non-negative integer, as the f-strings of the script render it.\<close>

fun str :: "nat \<Rightarrow> string" where
  "str n = (if n < 10 then [''0123456789'' ! n]
            else str (n div 10) @ [''0123456789'' ! (n mod 10)])"

declare str.simps [simp del]

section \<open>The entities of the model file\<close>

type_synonym point2 = "real \<times> real"
type_synonym point3 = "real \<times> real \<times> real"

record placement =
  Location :: point3
  Axis :: point3
  RefDirection :: point3

text \<open>
  A product's shape: one swept solid, given by the closed polyline of its profile, the
  placement of the solid, the direction of the sweep and its depth.
\<close>

record solid =
  OuterCurve :: "point2 list"
  Position :: placement
  ExtrudedDirection :: point3
  Depth :: real

record material_layer_set_usage =
  ForLayerSet :: "(string \<times> real) list"
  LayerSetDirection :: string
  DirectionSense :: string
  OffsetFromReferenceLine :: real

datatype ifc_class =
    IfcProject | IfcSite | IfcBuilding
  | IfcWallStandardCase | IfcSlab | IfcDoor | IfcWindow | IfcStair
  | IfcSanitaryTerminal | IfcUnitaryEquipment | IfcElectricDistributionBoard
  | IfcFlowTerminal

text \<open>
  Every entity that the script creates is a new object; \<open>handle\<close> is its identity (the
  position in the order of creation among the entities kept here).  \<open>GlobalId\<close> is the
  identifier drawn by \<open>create_guid\<close>.
\<close>

record spatial_element =
  se_handle :: nat
  se_GlobalId :: string
  se_class :: ifc_class
  se_Name :: string
  se_Description :: string

record storey =
  storey_handle :: nat
  storey_GlobalId :: string
  storey_Name :: string
  storey_Description :: string
  storey_Placement :: placement
  Elevation :: real

record element =
  handle :: nat
  GlobalId :: string
  ifc_class :: ifc_class
  Name :: string
  Description :: string
  ObjectPlacement :: placement
  Representation :: solid
  PredefinedType :: "string option"
  OverallHeight :: "real option"

record rel_aggregates =
  ra_GlobalId :: string
  ra_Name :: string
  RelatingObject :: nat
  RelatedObjects :: "nat list"

record rel_associates_material =
  rm_GlobalId :: string
  rm_RelatedObjects :: "element list"
  RelatingMaterial :: material_layer_set_usage

text \<open>
  A containment relation holds the list it was given, as it was given: the wall generator
  appends whatever \<open>create_wall\<close> returned, so an entry may be \<open>None\<close>.
\<close>

record rel_contained =
  rc_GlobalId :: string
  rc_Name :: string
  RelatedElements :: "element option list"
  RelatingStructure :: storey

text \<open>
  What a run cannot determine: the identifiers \<open>uuid4\<close> draws (the n-th call of
  \<open>create_guid\<close> returns \<open>guid_of n\<close>, already compressed) and the time of the run.
\<close>

record environment =
  guid_of :: "nat \<Rightarrow> string"
  timestring :: string

record ifc_file =
  schema :: string
  OwnerHistory :: "string option"
  guid_count :: nat
  next_handle :: nat
  spatial :: "spatial_element list"
  storeys_of :: "storey list"
  aggregates :: "rel_aggregates list"
  products :: "element list"
  material_rels :: "rel_associates_material list"
  containment :: "rel_contained list"

definition empty_file :: ifc_file where
  "empty_file =
     \<lparr> schema = [], OwnerHistory = None, guid_count = 0, next_handle = 0, spatial = [],
       storeys_of = [], aggregates = [], products = [], material_rels = [],
       containment = [] \<rparr>"

definition create_guid :: "environment \<Rightarrow> ifc_file \<Rightarrow> string \<times> ifc_file" where
  "create_guid env model =
     (guid_of env (guid_count model), model\<lparr>guid_count := guid_count model + 1\<rparr>)"

definition new_handle :: "ifc_file \<Rightarrow> nat \<times> ifc_file" where
  "new_handle model = (next_handle model, model\<lparr>next_handle := next_handle model + 1\<rparr>)"

definition world_placement :: "point3 \<Rightarrow> placement" where
  "world_placement p = \<lparr> Location = p, Axis = (0, 0, 1), RefDirection = (1, 0, 0) \<rparr>"

definition createIfcRelAggregates ::
  "environment \<Rightarrow> ifc_file \<Rightarrow> string \<Rightarrow> nat \<Rightarrow> nat list \<Rightarrow> ifc_file" where
  "createIfcRelAggregates env model name whole parts =
     (let (guid, model) = create_guid env model
      in model\<lparr>aggregates := aggregates model @
           [\<lparr> ra_GlobalId = guid, ra_Name = name, RelatingObject = whole,
              RelatedObjects = parts \<rparr>]\<rparr>)"

definition createIfcRelAssociatesMaterial ::
  "environment \<Rightarrow> ifc_file \<Rightarrow> element list \<Rightarrow> material_layer_set_usage \<Rightarrow> ifc_file" where
  "createIfcRelAssociatesMaterial env model objs usage =
     (let (guid, model) = create_guid env model
      in model\<lparr>material_rels := material_rels model @
           [\<lparr> rm_GlobalId = guid, rm_RelatedObjects = objs, RelatingMaterial = usage \<rparr>]\<rparr>)"

definition createIfcRelContainedInSpatialStructure ::
  "environment \<Rightarrow> ifc_file \<Rightarrow> string \<Rightarrow> element option list \<Rightarrow> storey \<Rightarrow> ifc_file" where
  "createIfcRelContainedInSpatialStructure env model name elems st =
     (let (guid, model) = create_guid env model
      in model\<lparr>containment := containment model @
           [\<lparr> rc_GlobalId = guid, rc_Name = name, RelatedElements = elems,
              RelatingStructure = st \<rparr>]\<rparr>)"

text \<open>
  One material, one layer of the given thickness, wrapped in a usage
  (\<open>"AXIS2", "POSITIVE", 0.0\<close>).
\<close>

definition layer_set_usage :: "string \<Rightarrow> real \<Rightarrow> material_layer_set_usage" where
  "layer_set_usage material_name thickness =
     \<lparr> ForLayerSet = [(material_name, thickness)], LayerSetDirection = ''AXIS2'',
       DirectionSense = ''POSITIVE'', OffsetFromReferenceLine = 0 \<rparr>"

text \<open>A product entity (\<open>model.createIfc...\<close> of a wall, slab, door, ...).\<close>

definition create_product ::
  "environment \<Rightarrow> ifc_file \<Rightarrow> ifc_class \<Rightarrow> string \<Rightarrow> string \<Rightarrow> placement \<Rightarrow> solid \<Rightarrow>
     string option \<Rightarrow> real option \<Rightarrow> element \<times> ifc_file" where
  "create_product env model cls name description plc shape predefined height =
     (let (guid, model) = create_guid env model;
          (h, model) = new_handle model;
          e = \<lparr> handle = h, GlobalId = guid, ifc_class = cls, Name = name,
                Description = description, ObjectPlacement = plc, Representation = shape,
                PredefinedType = predefined, OverallHeight = height \<rparr>
      in (e, model\<lparr>products := products model @ [e]\<rparr>))"

section \<open>Project, site, building, storeys\<close>

definition create_spatial ::
  "environment \<Rightarrow> ifc_file \<Rightarrow> ifc_class \<Rightarrow> string \<Rightarrow> string \<Rightarrow> spatial_element \<times> ifc_file" where
  "create_spatial env model cls name description =
     (let (guid, model) = create_guid env model;
          (h, model) = new_handle model;
          e = \<lparr> se_handle = h, se_GlobalId = guid, se_class = cls, se_Name = name,
                se_Description = description \<rparr>
      in (e, model\<lparr>spatial := spatial model @ [e]\<rparr>))"

definition create_ifc_model :: "environment \<Rightarrow> spatial_element \<times> ifc_file" where
  "create_ifc_model env =
     (let model = empty_file\<lparr>schema := ''IFC4''\<rparr>;
          model = model\<lparr>OwnerHistory := Some (timestring env)\<rparr>
      in create_spatial env model IfcProject ''New York Brownstone''
           ''Brownstone on 50'x100' lot'')"

definition create_site ::
  "environment \<Rightarrow> ifc_file \<Rightarrow> spatial_element \<Rightarrow> spatial_element \<times> ifc_file" where
  "create_site env model project =
     (let (site, model) = create_spatial env model IfcSite ''Brownstone Site''
                            ''Site for brownstone building'';
          model = createIfcRelAggregates env model ''Project Container''
                    (se_handle project) [se_handle site]
      in (site, model))"

definition create_building ::
  "environment \<Rightarrow> ifc_file \<Rightarrow> spatial_element \<Rightarrow> spatial_element \<times> ifc_file" where
  "create_building env model site =
     (let (building, model) = create_spatial env model IfcBuilding ''New York Brownstone''
                                ''Classic brownstone building'';
          model = createIfcRelAggregates env model ''Site Container''
                    (se_handle site) [se_handle building]
      in (building, model))"

definition storey_names :: "string list" where
  "storey_names =
     [''Basement'', ''First Floor'', ''Second Floor'', ''Third Floor'', ''Fourth Floor'',
      ''Roof'']"

definition storey_elevations :: "parameters \<Rightarrow> real list" where
  "storey_elevations P =
     [- convert_to_meter (BASEMENT_HEIGHT P),
      0,
      convert_to_meter (FIRST_FLOOR_HEIGHT P),
      convert_to_meter (FIRST_FLOOR_HEIGHT P + SECOND_FLOOR_HEIGHT P),
      convert_to_meter (FIRST_FLOOR_HEIGHT P + SECOND_FLOOR_HEIGHT P + THIRD_FLOOR_HEIGHT P),
      convert_to_meter (FIRST_FLOOR_HEIGHT P + SECOND_FLOOR_HEIGHT P + THIRD_FLOOR_HEIGHT P
                          + FOURTH_FLOOR_HEIGHT P)]"

definition createIfcBuildingStorey ::
  "environment \<Rightarrow> ifc_file \<Rightarrow> string \<Rightarrow> real \<Rightarrow> storey \<times> ifc_file" where
  "createIfcBuildingStorey env model name elevation =
     (let (guid, model) = create_guid env model;
          (h, model) = new_handle model;
          s = \<lparr> storey_handle = h, storey_GlobalId = guid, storey_Name = name,
                storey_Description = name @ '' of the brownstone'',
                storey_Placement = world_placement (0, 0, elevation),
                Elevation = elevation \<rparr>
      in (s, model\<lparr>storeys_of := storeys_of model @ [s]\<rparr>))"

text \<open>The loop over \<open>zip(storey_names, storey_elevations)\<close>.\<close>

fun create_storeys_loop ::
  "environment \<Rightarrow> (string \<times> real) list \<Rightarrow> ifc_file \<Rightarrow> storey list \<Rightarrow> storey list \<times> ifc_file"
  where
  "create_storeys_loop env [] model storeys = (storeys, model)"
| "create_storeys_loop env ((name, elevation) # rest) model storeys =
     (let (s, model) = createIfcBuildingStorey env model name elevation
      in create_storeys_loop env rest model (storeys @ [s]))"

definition create_storeys ::
  "parameters \<Rightarrow> environment \<Rightarrow> ifc_file \<Rightarrow> spatial_element \<Rightarrow> storey list \<times> ifc_file" where
  "create_storeys P env model building =
     (let (storeys, model) =
            create_storeys_loop env (zip storey_names (storey_elevations P)) model [];
          model = createIfcRelAggregates env model ''Building Container''
                    (se_handle building) (map storey_handle storeys)
      in (storeys, model))"

text \<open>
  The nominal height of each occupied storey, in feet: the list \<open>wall_heights\<close> of the
  wall generator.
\<close>

definition wall_heights :: "parameters \<Rightarrow> real list" where
  "wall_heights P =
     [BASEMENT_HEIGHT P, FIRST_FLOOR_HEIGHT P, SECOND_FLOOR_HEIGHT P, THIRD_FLOOR_HEIGHT P,
      FOURTH_FLOOR_HEIGHT P]"

section \<open>Walls\<close>

text \<open>Propagation of a raised exception through a sequence of statements.\<close>

definition raising :: "py_error + 'a \<Rightarrow> ('a \<Rightarrow> py_error + 'b) \<Rightarrow> py_error + 'b" where
  "raising r f = (case r of Inl e \<Rightarrow> Inl e | Inr x \<Rightarrow> f x)"

definition create_wall_extrusion :: "real \<Rightarrow> real \<Rightarrow> real \<Rightarrow> solid" where
  "create_wall_extrusion len thickness height =
     \<lparr> OuterCurve = [(0, - thickness / 2), (len, - thickness / 2), (len, thickness / 2),
                      (0, thickness / 2), (0, - thickness / 2)],
       Position = world_placement (0, 0, 0),
       ExtrudedDirection = (0, 0, 1),
       Depth = height \<rparr>"

text \<open>
  \<open>create_wall\<close> returns \<open>None\<close>, before it creates anything, when the segment from
  \<open>start_point\<close> to \<open>end_point\<close> has length zero in the plane.
\<close>

definition create_wall ::
  "environment \<Rightarrow> ifc_file \<Rightarrow> string \<Rightarrow> point3 \<Rightarrow> point3 \<Rightarrow> real \<Rightarrow> real \<Rightarrow>
     material_layer_set_usage \<Rightarrow> element option \<times> ifc_file" where
  "create_wall env model name start_point end_point thickness height usage =
     (let direction = (fst end_point - fst start_point,
                       fst (snd end_point) - fst (snd start_point), 0 :: real);
          len = sqrt ((fst direction)\<^sup>2 + (fst (snd direction))\<^sup>2)
      in if len = 0 then (None, model)
         else
           let normalized_direction =
                 (fst direction / len, fst (snd direction) / len, 0 :: real);
               perp_direction =
                 (- fst (snd normalized_direction), fst normalized_direction, 0 :: real);
               wall_placement =
                 \<lparr> Location = start_point, Axis = (0, 0, 1),
                   RefDirection = normalized_direction \<rparr>;
               extrusion = create_wall_extrusion len thickness height;
               (wall, model) = create_product env model IfcWallStandardCase name
                                 ''Exterior Wall'' wall_placement extrusion None None;
               model = createIfcRelAssociatesMaterial env model [wall] usage
           in (Some wall, model))"

text \<open>The loop \<open>for j in range(1, 3)\<close> that builds the cross walls of one storey.\<close>

fun cross_walls_loop ::
  "environment \<Rightarrow> nat list \<Rightarrow> real \<Rightarrow> real \<Rightarrow> real \<Rightarrow> real \<Rightarrow> real \<Rightarrow>
     material_layer_set_usage \<Rightarrow> ifc_file \<Rightarrow> element option list \<Rightarrow>
     element option list \<times> ifc_file" where
  "cross_walls_loop env [] width depth storey_elevation thickness wall_height usage model walls =
     (walls, model)"
| "cross_walls_loop env (j # js) width depth storey_elevation thickness wall_height usage model
       walls =
     (let (cross_wall, model) =
            create_wall env model (''Cross Wall '' @ str j)
              (width / 3 * real j, 0, storey_elevation)
              (width / 3 * real j, depth, storey_elevation)
              thickness wall_height usage
      in cross_walls_loop env js width depth storey_elevation thickness wall_height usage model
           (walls @ [cross_wall]))"

text \<open>
  The body of \<open>for i, storey in enumerate(storeys[:-1])\<close> in \<open>create_walls\<close>;
  \<open>wall_heights[i]\<close> raises when there are more than five storeys below the last.
\<close>

definition create_walls_body ::
  "parameters \<Rightarrow> environment \<Rightarrow> nat \<Rightarrow> storey \<Rightarrow> ifc_file \<Rightarrow>
     py_error + (element option list \<times> ifc_file)" where
  "create_walls_body P env i storey model =
     raising (index (wall_heights P) i) (\<lambda>h.
       let storey_elevation = Elevation storey;
           wall_height = convert_to_meter h;
           width = convert_to_meter (BUILDING_WIDTH P);
           depth = convert_to_meter (BUILDING_DEPTH P);
           thickness = convert_to_meter (WALL_THICKNESS P);
           material_name =
             (if i = 0 then ''Concrete''
              else if i = 1 \<or> i = 2 then ''Brownstone''
              else ''Brick'');
           usage = layer_set_usage material_name (convert_to_meter (WALL_THICKNESS P));
           (front_wall, model) =
             create_wall env model ''Front Wall'' (0, 0, storey_elevation)
               (width, 0, storey_elevation) thickness wall_height usage;
           walls = [front_wall];
           (back_wall, model) =
             create_wall env model ''Back Wall'' (0, depth, storey_elevation)
               (width, depth, storey_elevation) thickness wall_height usage;
           walls = walls @ [back_wall];
           (left_wall, model) =
             create_wall env model ''Left Wall'' (0, 0, storey_elevation)
               (0, depth, storey_elevation) thickness wall_height usage;
           walls = walls @ [left_wall];
           (right_wall, model) =
             create_wall env model ''Right Wall'' (width, 0, storey_elevation)
               (width, depth, storey_elevation) thickness wall_height usage;
           walls = walls @ [right_wall];
           (walls, model) =
             (if i > 0 then
                let (corridor_wall, model) =
                      create_wall env model ''Corridor Wall'' (0, depth / 2, storey_elevation)
                        (width, depth / 2, storey_elevation) thickness wall_height usage
                in cross_walls_loop env [1, 2] width depth storey_elevation thickness
                     wall_height usage model (walls @ [corridor_wall])
              else (walls, model));
           model = createIfcRelContainedInSpatialStructure env model
                     (''Storey '' @ str i @ '' Walls'') walls storey
       in Inr (walls, model))"



section \<open>Slabs\<close>

definition create_slab_extrusion :: "real \<Rightarrow> real \<Rightarrow> real \<Rightarrow> solid" where
  "create_slab_extrusion width depth thickness =
     \<lparr> OuterCurve = [(0, 0), (width, 0), (width, depth), (0, depth), (0, 0)],
       Position = world_placement (0, 0, 0),
       ExtrudedDirection = (0, 0, 1),
       Depth = thickness \<rparr>"

text \<open>
  The body of the loop of \<open>create_slabs\<close> over \<open>enumerate(storeys[:-1])\<close>.  The whole list
  \<open>storeys\<close> stays in scope: the slab is placed from \<open>storeys[i+1]\<close> and contained in it,
  and the test for the roof name is \<open>i == len(storeys) - 2\<close>, on Python integers.
\<close>

definition create_slabs_body ::
  "parameters \<Rightarrow> environment \<Rightarrow> storey list \<Rightarrow> nat \<Rightarrow> storey \<Rightarrow> ifc_file \<Rightarrow>
     py_error + (element \<times> ifc_file)" where
  "create_slabs_body P env storeys i storey model =
     raising (index storeys (i + 1)) (\<lambda>next_storey.
       let storey_elevation = Elevation storey;
           next_elevation = Elevation next_storey;
           width = convert_to_meter (BUILDING_WIDTH P);
           depth = convert_to_meter (BUILDING_DEPTH P);
           material_name = (if i = 0 then ''Concrete'' else ''Wood Floor'');
           usage = layer_set_usage material_name (convert_to_meter (FLOOR_THICKNESS P));
           slab_placement =
             world_placement (0, 0, next_elevation - convert_to_meter (FLOOR_THICKNESS P));
           extrusion =
             create_slab_extrusion width depth (convert_to_meter (FLOOR_THICKNESS P));
           slab_name =
             (if int i = int (length storeys) - 2 then ''Roof'' else ''Floor '' @ str (i + 1));
           slab_type = (if int i = int (length storeys) - 2 then ''ROOF'' else ''FLOOR'');
           (slab, model) =
             create_product env model IfcSlab slab_name (slab_name @ '' of the brownstone'')
               slab_placement extrusion (Some slab_type) None;
           model = createIfcRelAssociatesMaterial env model [slab] usage;
           model = createIfcRelContainedInSpatialStructure env model
                     (''Storey '' @ str i @ '' Slab'') [Some slab] next_storey
       in Inr (slab, model))"

fun create_slabs_loop ::
  "parameters \<Rightarrow> environment \<Rightarrow> storey list \<Rightarrow> nat \<Rightarrow> storey list \<Rightarrow> ifc_file \<Rightarrow>
     element list \<Rightarrow> py_error + (element list \<times> ifc_file)" where
  "create_slabs_loop P env storeys i [] model all_slabs = Inr (all_slabs, model)"
| "create_slabs_loop P env storeys i (storey # rest) model all_slabs =
     raising (create_slabs_body P env storeys i storey model) (\<lambda>(slab, model).
       create_slabs_loop P env storeys (i + 1) rest model (all_slabs @ [slab]))"

definition create_slabs ::
  "parameters \<Rightarrow> environment \<Rightarrow> ifc_file \<Rightarrow> storey list \<Rightarrow>
     py_error + (element list \<times> ifc_file)" where
  "create_slabs P env model storeys =
     raising (create_slabs_loop P env storeys 0 (butlast storeys) model [])
       (\<lambda>(all_slabs, model).
     raising (index_last storeys) (\<lambda>top_storey.
       let top_elevation = Elevation top_storey;
           width = convert_to_meter (BUILDING_WIDTH P);
           depth = convert_to_meter (BUILDING_DEPTH P);
           roof_usage = layer_set_usage ''Roof Membrane'' (convert_to_meter (ROOF_THICKNESS P));
           roof_placement = world_placement (0, 0, top_elevation);
           roof_extrusion =
             create_slab_extrusion width depth (convert_to_meter (ROOF_THICKNESS P));
           (roof, model) =
             create_product env model IfcSlab ''Roof Slab'' ''Roof of the brownstone''
               roof_placement roof_extrusion (Some ''ROOF'') None;
           model = createIfcRelAssociatesMaterial env model [roof] roof_usage;
           model = createIfcRelContainedInSpatialStructure env model ''Roof Slab''
                     [Some roof] top_storey
       in Inr (all_slabs @ [roof], model)))"

section \<open>Doors\<close>







section \<open>Windows\<close>










section \<open>Stoop\<close>



section \<open>Fixtures\<close>






section \<open>Mechanical, electrical and plumbing units\<close>



section \<open>The complete build\<close>


section \<open>Reading a finished model\<close>



text \<open>
  The start of \<open>create_brownstone_ifc\<close>, up to the storeys: the storeys that every
  generator of a build is given, and the model at that point.
\<close>

definition build_storeys :: "parameters \<Rightarrow> environment \<Rightarrow> storey list \<times> ifc_file" where
  "build_storeys P env =
     (let (project, model) = create_ifc_model env;
          (site, model) = create_site env model project;
          (building, model) = create_building env model site
      in create_storeys P env model building)"

text \<open>An environment to run the build in: the n-th identifier is the numeral of \<open>n\<close>.\<close>

definition sample_environment :: environment where
  "sample_environment = \<lparr> guid_of = str, timestring = ''2025-01-01T00:00:00'' \<rparr>"


definition default_storeys :: "storey list" where
  "default_storeys = fst (build_storeys default_parameters sample_environment)"

definition default_model :: ifc_file where
  "default_model = snd (build_storeys default_parameters sample_environment)"

text \<open>The slabs of the build with the constants of the script (none, had the call raised).\<close>

definition default_slabs :: "element list" where
  "default_slabs =
     (case create_slabs default_parameters sample_environment default_model default_storeys of
        Inl e \<Rightarrow> []
      | Inr (slabs, model) \<Rightarrow> slabs)"

text \<open>
  What identifies an element and says what it is: its handle, its class and its name.  A
  containment relation is read as the pair of its storey and its entries.
\<close>

type_synonym element_summary = "nat \<times> ifc_class \<times> string"

definition elem_summary :: "element \<Rightarrow> element_summary" where
  "elem_summary e = (handle e, ifc_class e, Name e)"

definition rel_pair :: "rel_contained \<Rightarrow> storey \<times> element option list" where
  "rel_pair r = (RelatingStructure r, RelatedElements r)"

text \<open>
  \<open>effect m m' es rs\<close>: from \<open>m\<close> to \<open>m'\<close> the products \<open>es\<close> and containment relations
  with the contents \<open>rs\<close> were appended, one handle was taken per product, and the storeys
  are the same.
\<close>

definition effect ::
  "ifc_file \<Rightarrow> ifc_file \<Rightarrow> element list \<Rightarrow> (storey \<times> element option list) list \<Rightarrow> bool" where
  "effect m m' es rs \<longleftrightarrow>
     products m' = products m @ es \<and>
     map rel_pair (containment m') = map rel_pair (containment m) @ rs \<and>
     next_handle m' = next_handle m + length es \<and>
     storeys_of m' = storeys_of m"

text \<open>
  The summaries of elements of one class that were created one after the other, the first
  with handle \<open>h\<close>, under the given names.
\<close>

definition numbered :: "nat \<Rightarrow> ifc_class \<Rightarrow> string list \<Rightarrow> element_summary list" where
  "numbered h c names = map (\<lambda>(k, n). (h + k, c, n)) (zip [0 ..< length names] names)"


definition slab_names :: "string list" where
  "slab_names = [''Floor 1'', ''Floor 2'', ''Floor 3'', ''Floor 4'', ''Roof'', ''Roof Slab'']"













text \<open>
  Forgetting what a run cannot determine: the environment whose identifiers and time are
  empty, and the maps that empty every identifier of an entity, and the time stamp, in a
  model.  Handles, classes, names, placements, shapes, materials and relations stay.
\<close>

definition blank :: environment where
  "blank = \<lparr> guid_of = (\<lambda>n. []), timestring = [] \<rparr>"

definition erase_element :: "element \<Rightarrow> element" where
  "erase_element e = e\<lparr>GlobalId := []\<rparr>"

definition erase_storey :: "storey \<Rightarrow> storey" where
  "erase_storey s = s\<lparr>storey_GlobalId := []\<rparr>"

definition erase_spatial :: "spatial_element \<Rightarrow> spatial_element" where
  "erase_spatial x = x\<lparr>se_GlobalId := []\<rparr>"

definition erase_aggregates :: "rel_aggregates \<Rightarrow> rel_aggregates" where
  "erase_aggregates r = r\<lparr>ra_GlobalId := []\<rparr>"

definition erase_material_rel :: "rel_associates_material \<Rightarrow> rel_associates_material" where
  "erase_material_rel r =
     r\<lparr>rm_GlobalId := [], rm_RelatedObjects := map erase_element (rm_RelatedObjects r)\<rparr>"

definition erase_contained :: "rel_contained \<Rightarrow> rel_contained" where
  "erase_contained r =
     r\<lparr>rc_GlobalId := [],
       RelatedElements := map (map_option erase_element) (RelatedElements r),
       RelatingStructure := erase_storey (RelatingStructure r)\<rparr>"

definition erase_file :: "ifc_file \<Rightarrow> ifc_file" where
  "erase_file m =
     m\<lparr>OwnerHistory := map_option (\<lambda>t. []) (OwnerHistory m),
       spatial := map erase_spatial (spatial m),
       storeys_of := map erase_storey (storeys_of m),
       aggregates := map erase_aggregates (aggregates m),
       products := map erase_element (products m),
       material_rels := map erase_material_rel (material_rels m),
       containment := map erase_contained (containment m)\<rparr>"

chapter \<open>Properties of the generator\<close>

section \<open>Unit conversion and arithmetic facts\<close>

lemma convert_to_meter_pos [simp]: "0 < convert_to_meter x \<longleftrightarrow> 0 < x"
  by (simp add: convert_to_meter_def FOOT_TO_METER_def zero_less_mult_iff)

lemma convert_to_meter_eq_0 [simp]: "convert_to_meter x = 0 \<longleftrightarrow> x = 0"
  by (simp add: convert_to_meter_def FOOT_TO_METER_def)



lemmas prim_defs =
  create_guid_def new_handle_def createIfcRelAggregates_def createIfcRelAssociatesMaterial_def
  createIfcRelContainedInSpatialStructure_def create_product_def

text \<open>
  C8, as the code has it.  The script converts feet only: \<open>convert_to_meter\<close> takes a
  value and no unit, is total, and multiplies by 0.3048, so that one foot divided by 0.3048
  is 1 again.  The inch scale 0.0254 exists as a constant, and no function uses it.
\<close>

theorem convert_to_meter_feet_only:
  "convert_to_meter v = v * (3048 / 10000) \<and>
   convert_to_meter 1 / (3048 / 10000) = 1 \<and>
   INCH_TO_METER = 254 / 10000"
  by (simp add: convert_to_meter_def FOOT_TO_METER_def INCH_TO_METER_def)

text \<open>
  C8 as stated fails: the value 1, meant as one inch, is converted like any other value,
  to 0.3048 and not to 0.0254.
\<close>

theorem convert_to_meter_not_inches:
  "convert_to_meter 1 = 3048 / 10000 \<and> convert_to_meter 1 \<noteq> 1 * INCH_TO_METER"
  by (simp add: convert_to_meter_def FOOT_TO_METER_def INCH_TO_METER_def)

section \<open>Storeys\<close>



section \<open>A single wall\<close>

lemma segment_length_zero: "sqrt ((x::real)\<^sup>2 + y\<^sup>2) = 0 \<longleftrightarrow> x = 0 \<and> y = 0"
  by (simp add: sum_power2_eq_zero_iff)



section \<open>The storeys of a build\<close>

lemma length_6E:
  assumes "length xs = 6"
  obtains x0 x1 x2 x3 x4 x5 where "xs = [x0, x1, x2, x3, x4, x5]"
  using assms by (auto simp: length_Suc_conv numeral_eq_Suc)

lemma build_storeys_result:
  "\<exists>ss m. build_storeys P env = (ss, m) \<and> length ss = 6 \<and>
     map storey_handle ss = [3, 4, 5, 6, 7, 8] \<and>
     map storey_Name ss = storey_names \<and>
     map Elevation ss = storey_elevations P \<and>
     next_handle m = 9 \<and> products m = [] \<and> containment m = [] \<and> storeys_of m = ss"
  by (simp add: build_storeys_def create_ifc_model_def create_site_def create_building_def
        create_spatial_def create_storeys_def createIfcBuildingStorey_def prim_defs Let_def
        empty_file_def storey_names_def storey_elevations_def)

lemma default_storeys_facts:
  "length default_storeys = 6"
  "map storey_handle default_storeys = [3, 4, 5, 6, 7, 8]"
  "map storey_Name default_storeys = storey_names"
  "map Elevation default_storeys = storey_elevations default_parameters"
  using build_storeys_result [of default_parameters sample_environment]
  by (auto simp: default_storeys_def)

lemma default_model_facts:
  "next_handle default_model = 9" "products default_model = []"
  "containment default_model = []" "storeys_of default_model = default_storeys"
  using build_storeys_result [of default_parameters sample_environment]
  by (auto simp: default_model_def default_storeys_def)

section \<open>Composing the generators\<close>


section \<open>Slabs\<close>

text \<open>Everything \<open>create_slabs\<close> does on six storeys, by evaluation.\<close>

lemma create_slabs_six:
  assumes "length ss = 6"
  shows "\<exists>slabs m'. create_slabs P env m ss = Inr (slabs, m') \<and>
     length slabs = 6 \<and>
     map ifc_class slabs = replicate 6 IfcSlab \<and>
     map (\<lambda>e. Location (ObjectPlacement e)) slabs =
       [(0, 0, Elevation (ss ! 1) - convert_to_meter (FLOOR_THICKNESS P)),
        (0, 0, Elevation (ss ! 2) - convert_to_meter (FLOOR_THICKNESS P)),
        (0, 0, Elevation (ss ! 3) - convert_to_meter (FLOOR_THICKNESS P)),
        (0, 0, Elevation (ss ! 4) - convert_to_meter (FLOOR_THICKNESS P)),
        (0, 0, Elevation (ss ! 5) - convert_to_meter (FLOOR_THICKNESS P)),
        (0, 0, Elevation (ss ! 5))] \<and>
     map Representation slabs =
       replicate 5
         (create_slab_extrusion (convert_to_meter (BUILDING_WIDTH P))
            (convert_to_meter (BUILDING_DEPTH P)) (convert_to_meter (FLOOR_THICKNESS P)))
       @ [create_slab_extrusion (convert_to_meter (BUILDING_WIDTH P))
            (convert_to_meter (BUILDING_DEPTH P)) (convert_to_meter (ROOF_THICKNESS P))] \<and>
     map (\<lambda>e. (Name e, PredefinedType e)) slabs =
       [(''Floor 1'', Some ''FLOOR''), (''Floor 2'', Some ''FLOOR''),
        (''Floor 3'', Some ''FLOOR''), (''Floor 4'', Some ''FLOOR''),
        (''Roof'', Some ''ROOF''), (''Roof Slab'', Some ''ROOF'')] \<and>
     map (\<lambda>r. (rm_RelatedObjects r, map fst (ForLayerSet (RelatingMaterial r))))
         (drop (length (material_rels m)) (material_rels m')) =
       [([slabs ! 0], [''Concrete'']), ([slabs ! 1], [''Wood Floor'']),
        ([slabs ! 2], [''Wood Floor'']), ([slabs ! 3], [''Wood Floor'']),
        ([slabs ! 4], [''Wood Floor'']), ([slabs ! 5], [''Roof Membrane''])] \<and>
     effect m m' slabs
       [(ss ! 1, [Some (slabs ! 0)]), (ss ! 2, [Some (slabs ! 1)]),
        (ss ! 3, [Some (slabs ! 2)]), (ss ! 4, [Some (slabs ! 3)]),
        (ss ! 5, [Some (slabs ! 4)]), (ss ! 5, [Some (slabs ! 5)])] \<and>
     map elem_summary slabs = numbered (next_handle m) IfcSlab slab_names"
proof -
  from assms obtain s0 s1 s2 s3 s4 s5 where ss: "ss = [s0, s1, s2, s3, s4, s5]"
    by (rule length_6E)
  show ?thesis
    unfolding ss
    by (simp add: create_slabs_def create_slabs_body_def raising_def index_def index_last_def
          prim_defs Let_def str.simps layer_set_usage_def world_placement_def effect_def
          elem_summary_def rel_pair_def numbered_def slab_names_def upt_rec
          eval_nat_numeral)
qed



text \<open>
  C4, as the code has it.  The loop gives the name Roof and the type ROOF to the slab with
  \<open>i = len(storeys) - 2\<close>, the last interior slab: the one built for the topmost occupied
  storey (index 4) and the roof storey above it, lying with its top at the elevation of
  the roof storey, above the topmost occupied storey and not below it.  The four interior
  slabs before it are Floor 1 to Floor 4 of type FLOOR.
\<close>

theorem roof_tag_on_last_interior_slab:
  assumes "length storeys = 6"
  shows "\<exists>slabs model'.
     create_slabs P env model storeys = Inr (slabs, model') \<and>
     map (\<lambda>e. (Name e, PredefinedType e)) (take 5 slabs) =
       [(''Floor 1'', Some ''FLOOR''), (''Floor 2'', Some ''FLOOR''),
        (''Floor 3'', Some ''FLOOR''), (''Floor 4'', Some ''FLOOR''),
        (''Roof'', Some ''ROOF'')] \<and>
     Location (ObjectPlacement (slabs ! 4)) =
       (0, 0, Elevation (storeys ! 5) - convert_to_meter (FLOOR_THICKNESS P)) \<and>
     Location (ObjectPlacement (slabs ! 3)) =
       (0, 0, Elevation (storeys ! 4) - convert_to_meter (FLOOR_THICKNESS P))"
  using create_slabs_six [OF assms, of P env model]
  apply (elim exE conjE)
  subgoal premises p for slabs m'
  proof -
    from p(2) obtain e0 e1 e2 e3 e4 e5 where slabs: "slabs = [e0, e1, e2, e3, e4, e5]"
      by (rule length_6E)
    have "map (\<lambda>e. (Name e, PredefinedType e)) (take 5 slabs) =
       [(''Floor 1'', Some ''FLOOR''), (''Floor 2'', Some ''FLOOR''),
        (''Floor 3'', Some ''FLOOR''), (''Floor 4'', Some ''FLOOR''),
        (''Roof'', Some ''ROOF'')]"
      "Location (ObjectPlacement (slabs ! 4)) =
         (0, 0, Elevation (storeys ! 5) - convert_to_meter (FLOOR_THICKNESS P))"
      "Location (ObjectPlacement (slabs ! 3)) =
         (0, 0, Elevation (storeys ! 4) - convert_to_meter (FLOOR_THICKNESS P))"
      using p(4,6) unfolding slabs by (simp_all add: numeral_eq_Suc)
    then show ?thesis
      using p(1) by (intro exI conjI)
  qed
  done

theorem roof_tag_on_last_interior_slab_witness:
  "length default_storeys = 6 \<and>
   (\<exists>slabs model'.
      create_slabs default_parameters sample_environment default_model default_storeys
        = Inr (slabs, model') \<and>
      map (\<lambda>e. (Name e, PredefinedType e)) (take 5 slabs) =
        [(''Floor 1'', Some ''FLOOR''), (''Floor 2'', Some ''FLOOR''),
         (''Floor 3'', Some ''FLOOR''), (''Floor 4'', Some ''FLOOR''),
         (''Roof'', Some ''ROOF'')])"
  using roof_tag_on_last_interior_slab
          [OF default_storeys_facts(1), of default_parameters sample_environment default_model]
        default_storeys_facts(1)
  by fastforce

text \<open>
  C4 as stated fails.  In the build with the constants of the script, the topmost occupied
  storey is the Fourth Floor, storey 4.  The slab immediately below it, the one whose top is
  at the elevation of that storey, is slab 3: its name is Floor 4 and its type FLOOR, not
  Roof and ROOF.
\<close>

theorem slab_below_top_storey_is_floor:
  "storey_Name (default_storeys ! 4) = ''Fourth Floor'' \<and>
   Location (ObjectPlacement (default_slabs ! 3)) =
     (0, 0, Elevation (default_storeys ! 4)
              - convert_to_meter (FLOOR_THICKNESS default_parameters)) \<and>
   Name (default_slabs ! 3) = ''Floor 4'' \<and>
   PredefinedType (default_slabs ! 3) = Some ''FLOOR'' \<and>
   Name (default_slabs ! 3) \<noteq> ''Roof'' \<and>
   PredefinedType (default_slabs ! 3) \<noteq> Some ''ROOF''"
proof -
  have "storey_Name (default_storeys ! 4) = map storey_Name default_storeys ! 4"
    using default_storeys_facts(1) by simp
  then have name: "storey_Name (default_storeys ! 4) = ''Fourth Floor''"
    by (simp add: default_storeys_facts(3) storey_names_def)
  show ?thesis
    using create_slabs_six
            [OF default_storeys_facts(1), of default_parameters sample_environment
               default_model]
    apply (elim exE conjE)
    subgoal premises p for slabs m'
    proof -
      have eq: "default_slabs = slabs"
        by (simp add: default_slabs_def p(1))
      from p(2) obtain e0 e1 e2 e3 e4 e5 where slabs: "slabs = [e0, e1, e2, e3, e4, e5]"
        by (rule length_6E)
      show ?thesis
        using p(4,6) name unfolding eq slabs by (simp add: numeral_eq_Suc)
    qed
    done
qed

section \<open>Windows\<close>








section \<open>Walls\<close>







text \<open>
  Outside the valid parameters \<open>create_walls\<close> does make requests of length zero.  It
  appends what \<open>create_wall\<close> returns as it is, so the skipped walls stay in the batch of
  the storey as \<open>None\<close>: with a width of zero, the front and the back wall of the basement.
\<close>

lemma create_walls_body_keeps_skipped:
  assumes "BUILDING_WIDTH P = 0" "0 < BUILDING_DEPTH P"
  shows "\<exists>ws m'. create_walls_body P env 0 s m = Inr (ws, m') \<and>
     length ws = 4 \<and> take 2 ws = [None, None] \<and> ws ! 2 \<noteq> None \<and> ws ! 3 \<noteq> None \<and>
     map rel_pair (drop (length (containment m)) (containment m')) = [(s, ws)]"
  using assms
  by (simp add: create_walls_body_def create_wall_def prim_defs Let_def raising_def index_def
        wall_heights_def str.simps rel_pair_def)

section \<open>Doors, stoop, fixtures and units\<close>





section \<open>The complete build\<close>



section \<open>Containment in the finished model\<close>













section \<open>Runs in different environments\<close>

lemmas erase_defs = blank_def erase_element_def erase_storey_def erase_spatial_def
  erase_aggregates_def erase_material_rel_def erase_contained_def erase_file_def


lemma erase_spatial_handle [simp]: "se_handle (erase_spatial x) = se_handle x"
  by (simp add: erase_spatial_def)




lemma create_product_erase:
  "erase_element (fst (create_product env m c n d p sh t h)) =
     fst (create_product blank (erase_file m) c n d p sh t h)"
  "erase_file (snd (create_product env m c n d p sh t h)) =
     snd (create_product blank (erase_file m) c n d p sh t h)"
  by (simp_all add: prim_defs Let_def erase_defs)

lemma createIfcRelAssociatesMaterial_erase:
  "erase_file (createIfcRelAssociatesMaterial env m objs usage) =
     createIfcRelAssociatesMaterial blank (erase_file m) (map erase_element objs) usage"
  by (simp add: prim_defs Let_def erase_defs)



lemma create_wall_erase:
  "map_option erase_element (fst (create_wall env m name a b t h usage)) =
     fst (create_wall blank (erase_file m) name a b t h usage)"
  "erase_file (snd (create_wall env m name a b t h usage)) =
     snd (create_wall blank (erase_file m) name a b t h usage)"
  by (simp_all add: create_wall_def Let_def split_beta create_product_erase
        createIfcRelAssociatesMaterial_erase)

lemma cross_walls_loop_erase:
  "map (map_option erase_element)
     (fst (cross_walls_loop env js w d z t h usage m walls)) =
     fst (cross_walls_loop blank js w d z t h usage (erase_file m)
            (map (map_option erase_element) walls))"
  "erase_file (snd (cross_walls_loop env js w d z t h usage m walls)) =
     snd (cross_walls_loop blank js w d z t h usage (erase_file m)
            (map (map_option erase_element) walls))"
  by (induction js arbitrary: m walls) (simp_all add: Let_def split_beta create_wall_erase)



lemma cross_walls_loop_erase_pair:
  "map_prod (map (map_option erase_element)) erase_file
     (cross_walls_loop env js w d z t h usage m walls) =
     cross_walls_loop blank js w d z t h usage (erase_file m)
       (map (map_option erase_element) walls)"
  by (simp add: prod_eq_iff cross_walls_loop_erase)






subsection \<open>Slabs\<close>




subsection \<open>Windows\<close>







subsection \<open>Doors\<close>







subsection \<open>Stoop, fixtures, units\<close>









subsection \<open>Project, site, building, storeys, and the whole build\<close>














end
